theory Spec2Isabelle
  imports Main "HOL-Library.AList" "HOL-Library.Multiset"
begin

section \<open>Origami logic networks: pleats, gadgets and their evaluation\<close>

text \<open>
  The development follows \<^verbatim>\<open>origami.py\<close>.  A \<^verbatim>\<open>Pleat\<close> is a mutable object with
  a name and a tri-state signal (\<^verbatim>\<open>Optional[bool]\<close>); gadgets and the network's registry
  hold references to pleat objects.  References are addresses into an object store, so
  that two holders of the same pleat see each other's writes and a pleat that is replaced
  in the registry stays reachable from the gadgets that were connected to it.
\<close>

subsection \<open>Data model\<close>

record Pleat =
  name :: string
  signal :: "bool option"

type_synonym addr = nat
type_synonym heap = "addr \<Rightarrow> Pleat"

datatype variant = NOT_gate | AND_gate | OR_gate | NAND_gate

record Gadget =
  variant :: variant
  gadget_id :: string
  input_names :: "string list"
  output_names :: "string list"
  inputs :: "addr list"
  outputs :: "addr list"

text \<open>
  The two \<^verbatim>\<open>ValueError\<close>s of the source are told apart by their message; \<^verbatim>\<open>KeyError\<close>
  and \<^verbatim>\<open>IndexError\<close> are the exceptions Python raises by itself on a missing dictionary
  key and on a list index out of range.
\<close>

datatype error =
    ValueError_pleat_no_encontrado string string
  | ValueError_ciclo
  | KeyError string
  | IndexError

text \<open>The constructors of the four concrete gadget classes.\<close>

definition NOTGadget :: "string \<Rightarrow> string \<Rightarrow> string \<Rightarrow> Gadget" where
  "NOTGadget gid input_name output_name =
     \<lparr>variant = NOT_gate, gadget_id = gid, input_names = [input_name],
      output_names = [output_name], inputs = [], outputs = []\<rparr>"

definition ANDGadget :: "string \<Rightarrow> string \<Rightarrow> string \<Rightarrow> string \<Rightarrow> Gadget" where
  "ANDGadget gid input1 input2 output =
     \<lparr>variant = AND_gate, gadget_id = gid, input_names = [input1, input2],
      output_names = [output], inputs = [], outputs = []\<rparr>"

definition ORGadget :: "string \<Rightarrow> string \<Rightarrow> string \<Rightarrow> string \<Rightarrow> Gadget" where
  "ORGadget gid input1 input2 output =
     \<lparr>variant = OR_gate, gadget_id = gid, input_names = [input1, input2],
      output_names = [output], inputs = [], outputs = []\<rparr>"

definition NANDGadget :: "string \<Rightarrow> string \<Rightarrow> string \<Rightarrow> string \<Rightarrow> Gadget" where
  "NANDGadget gid input1 input2 output =
     \<lparr>variant = NAND_gate, gadget_id = gid, input_names = [input1, input2],
      output_names = [output], inputs = [], outputs = []\<rparr>"

subsection \<open>Python's truth value, \<^verbatim>\<open>not\<close>, \<^verbatim>\<open>and\<close>, \<^verbatim>\<open>or\<close> on \<^verbatim>\<open>Optional[bool]\<close>\<close>

fun truthy :: "bool option \<Rightarrow> bool" where
  "truthy None = False"
| "truthy (Some b) = b"

definition py_not :: "bool option \<Rightarrow> bool option" where
  "py_not x = Some (\<not> truthy x)"

text \<open>\<^verbatim>\<open>xs[i]\<close> for a non-negative literal index.\<close>

definition getitem :: "'a list \<Rightarrow> nat \<Rightarrow> error + 'a" where
  "getitem xs i = (if i < length xs then Inr (xs ! i) else Inl IndexError)"

subsection \<open>Gadget evaluation\<close>

definition has_undefined_inputs :: "Gadget \<Rightarrow> heap \<Rightarrow> bool" where
  "has_undefined_inputs g h = list_ex (\<lambda>p. signal (h p) = None) (inputs g)"

text \<open>
  The right-hand side of the assignment in the \<^verbatim>\<open>else\<close> branch of each \<^verbatim>\<open>evaluate\<close>.
  \<^verbatim>\<open>x and y\<close> yields \<^verbatim>\<open>x\<close> when \<^verbatim>\<open>x\<close> is falsy and does not evaluate \<^verbatim>\<open>y\<close>;
  \<^verbatim>\<open>x or y\<close> yields \<^verbatim>\<open>x\<close> when \<^verbatim>\<open>x\<close> is truthy.
\<close>

definition and_inputs :: "Gadget \<Rightarrow> heap \<Rightarrow> error + bool option" where
  "and_inputs g h =
     (case getitem (inputs g) 0 of
        Inl e \<Rightarrow> Inl e
      | Inr p0 \<Rightarrow>
          if truthy (signal (h p0)) then
            (case getitem (inputs g) 1 of
               Inl e \<Rightarrow> Inl e
             | Inr p1 \<Rightarrow> Inr (signal (h p1)))
          else Inr (signal (h p0)))"

definition or_inputs :: "Gadget \<Rightarrow> heap \<Rightarrow> error + bool option" where
  "or_inputs g h =
     (case getitem (inputs g) 0 of
        Inl e \<Rightarrow> Inl e
      | Inr p0 \<Rightarrow>
          if truthy (signal (h p0)) then Inr (signal (h p0))
          else
            (case getitem (inputs g) 1 of
               Inl e \<Rightarrow> Inl e
             | Inr p1 \<Rightarrow> Inr (signal (h p1))))"

fun gate_value :: "variant \<Rightarrow> Gadget \<Rightarrow> heap \<Rightarrow> error + bool option" where
  "gate_value NOT_gate g h =
     (case getitem (inputs g) 0 of
        Inl e \<Rightarrow> Inl e
      | Inr p0 \<Rightarrow> Inr (py_not (signal (h p0))))"
| "gate_value AND_gate g h = and_inputs g h"
| "gate_value OR_gate g h = or_inputs g h"
| "gate_value NAND_gate g h =
     (case and_inputs g h of
        Inl e \<Rightarrow> Inl e
      | Inr v \<Rightarrow> Inr (py_not v))"

text \<open>\<^verbatim>\<open>self.outputs[0].signal = v\<close>\<close>

definition set_output0 :: "Gadget \<Rightarrow> bool option \<Rightarrow> heap \<Rightarrow> error + heap" where
  "set_output0 g v h =
     (case getitem (outputs g) 0 of
        Inl e \<Rightarrow> Inl e
      | Inr p \<Rightarrow> Inr (h(p := (h p)\<lparr>signal := v\<rparr>)))"

definition evaluate :: "Gadget \<Rightarrow> heap \<Rightarrow> error + heap" where
  "evaluate g h =
     (if has_undefined_inputs g h then set_output0 g None h
      else
        (case gate_value (variant g) g h of
           Inl e \<Rightarrow> Inl e
         | Inr v \<Rightarrow> set_output0 g v h))"

section \<open>Network: construction\<close>

text \<open>
  A Python \<^verbatim>\<open>dict\<close> keeps its keys in insertion order; assigning to an existing key
  keeps the key's position.  It is an association list with distinct keys, assigned
  to with \<^const>\<open>AList.update\<close> and read with \<^const>\<open>map_of\<close>.
\<close>

type_synonym ('k, 'v) dict = "('k \<times> 'v) list"

record Network =
  store :: heap
  fresh :: addr
  pleats :: "(string, addr) dict"
  gadgets :: "Gadget list"

text \<open>\<^verbatim>\<open>Network()\<close>: no pleats, no gadgets.  Every pleat object of the store is unused.\<close>

definition Network_init :: Network where
  "Network_init =
     \<lparr>store = (\<lambda>_. \<lparr>name = [], signal = None\<rparr>), fresh = 0, pleats = [], gadgets = []\<rparr>"

text \<open>\<^verbatim>\<open>self.pleats[name] = Pleat(name, signal)\<close>: a new object each time.\<close>

definition add_pleat :: "string \<Rightarrow> bool option \<Rightarrow> Network \<Rightarrow> Network" where
  "add_pleat nm sig net =
     net\<lparr>store := (store net)(fresh net := \<lparr>name = nm, signal = sig\<rparr>),
         fresh := Suc (fresh net),
         pleats := AList.update nm (fresh net) (pleats net)\<rparr>"

fun connect_inputs_loop ::
  "string \<Rightarrow> (string, addr) dict \<Rightarrow> string list \<Rightarrow> addr list \<Rightarrow> error + addr list" where
  "connect_inputs_loop gid pleats_dict [] ins = Inr ins"
| "connect_inputs_loop gid pleats_dict (nm # nms) ins =
     (case map_of pleats_dict nm of
        None \<Rightarrow> Inl (ValueError_pleat_no_encontrado nm gid)
      | Some p \<Rightarrow> connect_inputs_loop gid pleats_dict nms (ins @ [p]))"

definition connect_inputs :: "Gadget \<Rightarrow> (string, addr) dict \<Rightarrow> error + Gadget" where
  "connect_inputs g pleats_dict =
     (case connect_inputs_loop (gadget_id g) pleats_dict (input_names g) (inputs g) of
        Inl e \<Rightarrow> Inl e
      | Inr ins \<Rightarrow> Inr (g\<lparr>inputs := ins\<rparr>))"

fun connect_outputs_loop :: "string list \<Rightarrow> Network \<Rightarrow> addr list \<Rightarrow> Network \<times> addr list" where
  "connect_outputs_loop [] net outs = (net, outs)"
| "connect_outputs_loop (nm # nms) net outs =
     (case map_of (pleats net) nm of
        None \<Rightarrow>
          connect_outputs_loop nms
            (net\<lparr>store := (store net)(fresh net := \<lparr>name = nm, signal = None\<rparr>),
                 fresh := Suc (fresh net),
                 pleats := AList.update nm (fresh net) (pleats net)\<rparr>)
            (outs @ [fresh net])
      | Some p \<Rightarrow> connect_outputs_loop nms net (outs @ [p]))"

definition connect_outputs :: "Gadget \<Rightarrow> Network \<Rightarrow> Gadget \<times> Network" where
  "connect_outputs g net =
     (case connect_outputs_loop (output_names g) net (outputs g) of
        (net', outs) \<Rightarrow> (g\<lparr>outputs := outs\<rparr>, net'))"

text \<open>
  \<^verbatim>\<open>add_gadget\<close> returns the exception it raised, if any, together with the network as
  the call leaves it.
\<close>

definition add_gadget :: "Gadget \<Rightarrow> Network \<Rightarrow> error option \<times> Network" where
  "add_gadget g net =
     (case connect_inputs g (pleats net) of
        Inl e \<Rightarrow> (Some e, net)
      | Inr g1 \<Rightarrow>
          (case connect_outputs g1 net of
             (g2, net') \<Rightarrow> (None, net'\<lparr>gadgets := gadgets net' @ [g2]\<rparr>)))"

fun set_inputs :: "(string, bool option) dict \<Rightarrow> Network \<Rightarrow> Network" where
  "set_inputs [] net = net"
| "set_inputs ((nm, sig) # rest) net =
     (case map_of (pleats net) nm of
        Some p \<Rightarrow> set_inputs rest (net\<lparr>store := (store net)(p := (store net p)\<lparr>signal := sig\<rparr>)\<rparr>)
      | None \<Rightarrow> set_inputs rest (add_pleat nm sig net))"

section \<open>Network: scheduling\<close>

text \<open>A loop whose body may raise: the first exception ends it.\<close>

fun foldE :: "('a \<Rightarrow> 's \<Rightarrow> error + 's) \<Rightarrow> 'a list \<Rightarrow> 's \<Rightarrow> error + 's" where
  "foldE f [] s = Inr s"
| "foldE f (x # xs) s =
     (case f x s of
        Inl e \<Rightarrow> Inl e
      | Inr s' \<Rightarrow> foldE f xs s')"

definition pleat_to_producer :: "Gadget list \<Rightarrow> (string, string) dict" where
  "pleat_to_producer gs =
     fold (\<lambda>g d. fold (\<lambda>out. AList.update out (gadget_id g)) (output_names g) d) gs []"

definition in_degree_init :: "Gadget list \<Rightarrow> (string, int) dict" where
  "in_degree_init gs = fold (\<lambda>g. AList.update (gadget_id g) 0) gs []"

definition gadget_map :: "Gadget list \<Rightarrow> (string, Gadget) dict" where
  "gadget_map gs = fold (\<lambda>g. AList.update (gadget_id g) g) gs []"

text \<open>
  \<^verbatim>\<open>graph\<close> is a \<^verbatim>\<open>defaultdict(set)\<close>.  Each set of gadget ids is kept as the list of
  its members in the order they were added; reading a missing key with \<^verbatim>\<open>graph[k]\<close>
  inserts the key with an empty set.
\<close>

type_synonym graph = "(string, string list) dict"

definition graph_getitem :: "graph \<Rightarrow> string \<Rightarrow> graph \<times> string list" where
  "graph_getitem graph k =
     (case map_of graph k of
        None \<Rightarrow> (graph @ [(k, [])], [])
      | Some members \<Rightarrow> (graph, members))"

text \<open>
  The body of \<^verbatim>\<open>for inp in g.input_names\<close>.  The test \<^verbatim>\<open>if producer\<close> is false for
  \<^verbatim>\<open>None\<close> and for the empty string.
\<close>

fun add_dependency ::
  "(string, string) dict \<Rightarrow> string \<Rightarrow> string \<Rightarrow> graph \<times> (string, int) dict
     \<Rightarrow> error + graph \<times> (string, int) dict" where
  "add_dependency p2p consumer inp (graph, in_degree) =
     (case map_of p2p inp of
        None \<Rightarrow> Inr (graph, in_degree)
      | Some producer \<Rightarrow>
          if producer \<noteq> [] \<and> producer \<noteq> consumer then
            (case graph_getitem graph producer of
               (graph1, members) \<Rightarrow>
                 if \<not> List.member members consumer then
                   (case map_of in_degree consumer of
                      None \<Rightarrow> Inl (KeyError consumer)
                    | Some d \<Rightarrow>
                        Inr (AList.update producer (members @ [consumer]) graph1,
                             AList.update consumer (d + 1) in_degree))
                 else Inr (graph1, in_degree))
          else Inr (graph, in_degree))"

definition build_graph :: "Gadget list \<Rightarrow> error + graph \<times> (string, int) dict" where
  "build_graph gs =
     foldE (\<lambda>g. foldE (add_dependency (pleat_to_producer gs) (gadget_id g)) (input_names g))
       gs ([], in_degree_init gs)"

text \<open>
  The body of \<^verbatim>\<open>for nbr in graph.get(gid, [])\<close>, over the neighbours in the order the
  set yields them.
\<close>

fun visit ::
  "string list \<Rightarrow> (string, int) dict \<times> string list
     \<Rightarrow> error + (string, int) dict \<times> string list" where
  "visit [] s = Inr s"
| "visit (nbr # nbrs) (in_degree, queue) =
     (case map_of in_degree nbr of
        None \<Rightarrow> Inl (KeyError nbr)
      | Some d \<Rightarrow>
          visit nbrs
            (AList.update nbr (d - 1) in_degree,
             if d - 1 = 0 then queue @ [nbr] else queue))"

definition pending :: "(string, int) dict \<Rightarrow> nat" where
  "pending in_degree = sum_list (map (\<lambda>(k, d). nat d) in_degree)"

lemma pending_update:
  "map_of in_degree k = Some d \<Longrightarrow>
   pending (AList.update k d' in_degree) + nat d = pending in_degree + nat d'"
  by (induction in_degree) (auto simp: pending_def)

lemma visit_measure:
  "visit nbrs (in_degree, queue) = Inr (in_degree', queue') \<Longrightarrow>
   length queue' + pending in_degree' \<le> length queue + pending in_degree"
proof (induction nbrs arbitrary: in_degree queue)
  case Nil
  then show ?case by simp
next
  case (Cons nbr nbrs)
  from Cons.prems obtain d where d: "map_of in_degree nbr = Some d"
    by (auto split: option.splits)
  let ?i = "AList.update nbr (d - 1) in_degree"
  let ?q = "if d - 1 = 0 then queue @ [nbr] else queue"
  from Cons.prems d have "visit nbrs (?i, ?q) = Inr (in_degree', queue')"
    by simp
  then have "length queue' + pending in_degree' \<le> length ?q + pending ?i"
    by (rule Cons.IH)
  moreover from pending_update [OF d, of "d - 1"]
  have "length ?q + pending ?i \<le> length queue + pending in_degree"
    by (auto split: if_splits)
  ultimately show ?case by linarith
qed

text \<open>
  A Python \<^verbatim>\<open>set\<close> of strings yields its members in an order the language does not
  fix (it follows the strings' hashes, which change from one interpreter process to the
  next).  The order is a parameter \<^verbatim>\<open>it\<close> of the scheduler: the order in which a set
  yields its members, as a function of the order they were added in.  Every such order
  is a rearrangement of the members.
\<close>

definition set_order :: "(string list \<Rightarrow> string list) \<Rightarrow> bool" where
  "set_order it \<longleftrightarrow> (\<forall>members. mset (it members) = mset members)"

text \<open>
  \<^verbatim>\<open>graph.get(gid, [])\<close> as the \<^verbatim>\<open>for\<close> loop walks it: the members of the set, or
  nothing for a gadget that has no entry.
\<close>

definition neighbours :: "(string list \<Rightarrow> string list) \<Rightarrow> graph \<Rightarrow> string \<Rightarrow> string list" where
  "neighbours it graph gid =
     (case map_of graph gid of
        None \<Rightarrow> []
      | Some members \<Rightarrow> it members)"

text \<open>The \<^verbatim>\<open>while queue\<close> loop of Kahn's algorithm.\<close>

function kahn ::
  "(string list \<Rightarrow> string list) \<Rightarrow> graph \<Rightarrow> (string, Gadget) dict
     \<Rightarrow> (string, int) dict \<Rightarrow> string list \<Rightarrow> Gadget list \<Rightarrow> error + Gadget list" where
  "kahn it graph gmap in_degree [] order = Inr order"
| "kahn it graph gmap in_degree (gid # queue) order =
     (case map_of gmap gid of
        None \<Rightarrow> Inl (KeyError gid)
      | Some g \<Rightarrow>
          (case visit (neighbours it graph gid) (in_degree, queue) of
             Inl e \<Rightarrow> Inl e
           | Inr (in_degree', queue') \<Rightarrow> kahn it graph gmap in_degree' queue' (order @ [g])))"
  by pat_completeness auto
termination
proof (relation "measure (\<lambda>(it, graph, gmap, in_degree, queue, order).
                    length queue + pending in_degree)", goal_cases)
  case 1
  show ?case by simp
next
  case (2 it graph gmap in_degree gid queue order g r in_degree' queue')
  then have "visit (neighbours it graph gid) (in_degree, queue) = Inr (in_degree', queue')"
    by simp
  from visit_measure [OF this] show ?case by simp
qed

definition kahn_order :: "(string list \<Rightarrow> string list) \<Rightarrow> Network \<Rightarrow> error + Gadget list" where
  "kahn_order it net =
     (case build_graph (gadgets net) of
        Inl e \<Rightarrow> Inl e
      | Inr (graph, in_degree) \<Rightarrow>
          kahn it graph (gadget_map (gadgets net)) in_degree
            (map fst (filter (\<lambda>(gid, deg). deg = 0) in_degree)) [])"

definition topological_sort ::
  "(string list \<Rightarrow> string list) \<Rightarrow> Network \<Rightarrow> error + Gadget list" where
  "topological_sort it net =
     (case kahn_order it net of
        Inl e \<Rightarrow> Inl e
      | Inr order \<Rightarrow>
          if length order \<noteq> length (gadgets net) then Inl ValueError_ciclo
          else Inr order)"

section \<open>Network: execution\<close>

text \<open>What \<^verbatim>\<open>run\<close> prints when \<^verbatim>\<open>trace\<close> is set, one value per \<^verbatim>\<open>print\<close>.\<close>

datatype event =
    Orden_topologico "string list"
  | Iteracion int
  | Cambio string "(string \<times> bool option) list"
  | Convergio

type_synonym pass_state = "heap \<times> bool \<times> event list"

text \<open>
  The body of \<^verbatim>\<open>for g in execution_order\<close>.  An exception leaves the store and the
  printed lines as they are when it is raised.
\<close>

definition run_gadget ::
  "bool \<Rightarrow> Gadget \<Rightarrow> pass_state \<Rightarrow> error \<times> heap \<times> event list + pass_state" where
  "run_gadget trace g s =
     (case s of (h, changed, out) \<Rightarrow>
        let old = map (\<lambda>p. signal (h p)) (outputs g) in
        (case evaluate g h of
           Inl e \<Rightarrow> Inl (e, h, out)
         | Inr h' \<Rightarrow>
             let new = map (\<lambda>p. signal (h' p)) (outputs g);
                 out' = (if trace \<and> old \<noteq> new
                         then out @ [Cambio (gadget_id g)
                                       (map (\<lambda>p. (name (h' p), signal (h' p))) (outputs g))]
                         else out)
             in Inr (h', changed \<or> old \<noteq> new, out')))"

fun run_pass ::
  "bool \<Rightarrow> Gadget list \<Rightarrow> pass_state \<Rightarrow> error \<times> heap \<times> event list + pass_state" where
  "run_pass trace [] s = Inr s"
| "run_pass trace (g # gs) s =
     (case run_gadget trace g s of
        Inl x \<Rightarrow> Inl x
      | Inr s' \<Rightarrow> run_pass trace gs s')"

text \<open>
  \<^verbatim>\<open>for iteration in range(max_iterations)\<close>: the first argument counts the iterations
  that remain, the second is \<^verbatim>\<open>iteration\<close>.
\<close>

fun run_loop ::
  "bool \<Rightarrow> Gadget list \<Rightarrow> nat \<Rightarrow> int \<Rightarrow> heap \<Rightarrow> event list
     \<Rightarrow> error option \<times> heap \<times> event list" where
  "run_loop trace execution_order 0 iteration h out = (None, h, out)"
| "run_loop trace execution_order (Suc k) iteration h out =
     (case run_pass trace execution_order
             (h, False, if trace then out @ [Iteracion (iteration + 1)] else out) of
        Inl (e, h', out') \<Rightarrow> (Some e, h', out')
      | Inr (h', changed, out') \<Rightarrow>
          if \<not> changed then (None, h', if trace then out' @ [Convergio] else out')
          else run_loop trace execution_order k (iteration + 1) h' out')"

text \<open>\<^verbatim>\<open>{name: p.signal for name, p in self.pleats.items()}\<close>\<close>

definition snapshot :: "(string, addr) dict \<Rightarrow> heap \<Rightarrow> (string, bool option) dict" where
  "snapshot pleats_dict h = map (\<lambda>(nm, p). (nm, signal (h p))) pleats_dict"

text \<open>
  \<^verbatim>\<open>run\<close> yields the returned dictionary or the exception, the network as the call
  leaves it, and the printed lines.  \<^verbatim>\<open>range(n)\<close> is empty for \<^verbatim>\<open>n \<le> 0\<close>.
\<close>

definition run ::
  "(string list \<Rightarrow> string list) \<Rightarrow> int \<Rightarrow> bool \<Rightarrow> Network
     \<Rightarrow> (error + (string, bool option) dict) \<times> Network \<times> event list" where
  "run it max_iterations trace net =
     (case topological_sort it net of
        Inl e \<Rightarrow> (Inl e, net, [])
      | Inr execution_order \<Rightarrow>
          (case run_loop trace execution_order (nat max_iterations) 0 (store net)
                  (if trace then [Orden_topologico (map gadget_id execution_order)] else []) of
             (Some e, h, out) \<Rightarrow> (Inl e, net\<lparr>store := h\<rparr>, out)
           | (None, h, out) \<Rightarrow> (Inr (snapshot (pleats net) h), net\<lparr>store := h\<rparr>, out)))"

text \<open>The default of \<^verbatim>\<open>max_iterations\<close>.\<close>

definition default_max_iterations :: int where
  "default_max_iterations = 5"

section \<open>The half-adder network\<close>

text \<open>A sequence of \<^verbatim>\<open>add_gadget\<close> calls; the first exception ends it.\<close>

fun add_gadgets :: "Gadget list \<Rightarrow> Network \<Rightarrow> error + Network" where
  "add_gadgets [] net = Inr net"
| "add_gadgets (g # gs) net =
     (case add_gadget g net of
        (Some e, _) \<Rightarrow> Inl e
      | (None, net') \<Rightarrow> add_gadgets gs net')"

definition build_half_adder_network :: "error + Network" where
  "build_half_adder_network =
     add_gadgets
       [ANDGadget ''and1'' ''a'' ''b'' ''and_temp'',
        ORGadget ''or1'' ''a'' ''b'' ''or_temp'',
        NOTGadget ''not1'' ''and_temp'' ''not_temp'',
        ANDGadget ''and2'' ''or_temp'' ''not_temp'' ''sum'',
        ANDGadget ''and3_carry'' ''a'' ''b'' ''carry'']
       (fold (\<lambda>nm. add_pleat nm None)
          [''a'', ''b'', ''and_temp'', ''or_temp'', ''not_temp'', ''sum'', ''carry'']
          Network_init)"

section \<open>Properties of gadget evaluation\<close>

text \<open>
  Claim C1.  Every gadget class applies the strict rule: when some input pleat carries
  no signal (\<^verbatim>\<open>None\<close>), \<^verbatim>\<open>evaluate\<close> writes \<^verbatim>\<open>None\<close> to the output pleat, whatever the
  other inputs are; when every input is defined, it writes the class's boolean function
  of the inputs: negation for \<^verbatim>\<open>NOTGadget\<close>, conjunction for \<^verbatim>\<open>ANDGadget\<close>, disjunction
  for \<^verbatim>\<open>ORGadget\<close>, negated conjunction for \<^verbatim>\<open>NANDGadget\<close>.  Only the signal of the
  first output pleat changes.
\<close>

theorem evaluate_strict_rule:
  assumes "outputs g = p # ps"
  shows "((\<exists>p0 \<in> set (inputs g). signal (h p0) = None) \<longrightarrow>
            evaluate g h = Inr (h(p := (h p)\<lparr>signal := None\<rparr>)))
       \<and> (variant g = NOT_gate \<and> inputs g = [p0] \<and> signal (h p0) = Some a \<longrightarrow>
            evaluate g h = Inr (h(p := (h p)\<lparr>signal := Some (\<not> a)\<rparr>)))
       \<and> (variant g = AND_gate \<and> inputs g = [p0, p1] \<and> signal (h p0) = Some a \<and> signal (h p1) = Some b \<longrightarrow>
            evaluate g h = Inr (h(p := (h p)\<lparr>signal := Some (a \<and> b)\<rparr>)))
       \<and> (variant g = OR_gate \<and> inputs g = [p0, p1] \<and> signal (h p0) = Some a \<and> signal (h p1) = Some b \<longrightarrow>
            evaluate g h = Inr (h(p := (h p)\<lparr>signal := Some (a \<or> b)\<rparr>)))
       \<and> (variant g = NAND_gate \<and> inputs g = [p0, p1] \<and> signal (h p0) = Some a \<and> signal (h p1) = Some b \<longrightarrow>
            evaluate g h = Inr (h(p := (h p)\<lparr>signal := Some (\<not> (a \<and> b))\<rparr>)))"
  using assms
  by (auto simp: evaluate_def has_undefined_inputs_def set_output0_def getitem_def
        and_inputs_def or_inputs_def py_not_def list_ex_iff)

text \<open>
  The rule at concrete gadgets: \<^verbatim>\<open>AND(None, True)\<close> is \<^verbatim>\<open>None\<close>, and one row of each
  truth table.
\<close>

theorem evaluate_strict_rule_witness:
  "evaluate (ANDGadget ''and1'' ''a'' ''b'' ''c''\<lparr>inputs := [0, 1], outputs := [2]\<rparr>)
      (\<lambda>p. \<lparr>name = [], signal = if p = 1 then Some True else None\<rparr>)
    = Inr ((\<lambda>p. \<lparr>name = [], signal = if p = 1 then Some True else None\<rparr>)
             (2 := \<lparr>name = [], signal = None\<rparr>))
   \<and> evaluate (NOTGadget ''n1'' ''a'' ''out''\<lparr>inputs := [0], outputs := [1]\<rparr>)
      (\<lambda>p. \<lparr>name = [], signal = Some True\<rparr>)
    = Inr ((\<lambda>p. \<lparr>name = [], signal = Some True\<rparr>)(1 := \<lparr>name = [], signal = Some False\<rparr>))
   \<and> evaluate (ANDGadget ''and1'' ''a'' ''b'' ''out''\<lparr>inputs := [0, 1], outputs := [2]\<rparr>)
      (\<lambda>p. \<lparr>name = [], signal = Some (p = 0)\<rparr>)
    = Inr ((\<lambda>p. \<lparr>name = [], signal = Some (p = 0)\<rparr>)(2 := \<lparr>name = [], signal = Some False\<rparr>))
   \<and> evaluate (ORGadget ''or1'' ''a'' ''b'' ''out''\<lparr>inputs := [0, 1], outputs := [2]\<rparr>)
      (\<lambda>p. \<lparr>name = [], signal = Some (p = 1)\<rparr>)
    = Inr ((\<lambda>p. \<lparr>name = [], signal = Some (p = 1)\<rparr>)(2 := \<lparr>name = [], signal = Some True\<rparr>))
   \<and> evaluate (NANDGadget ''nand1'' ''a'' ''b'' ''out''\<lparr>inputs := [0, 1], outputs := [2]\<rparr>)
      (\<lambda>p. \<lparr>name = [], signal = Some True\<rparr>)
    = Inr ((\<lambda>p. \<lparr>name = [], signal = Some True\<rparr>)(2 := \<lparr>name = [], signal = Some False\<rparr>))"
  using
    evaluate_strict_rule [of "ANDGadget ''and1'' ''a'' ''b'' ''c''\<lparr>inputs := [0, 1], outputs := [2]\<rparr>"
      2 "[]" "\<lambda>p. \<lparr>name = [], signal = if p = 1 then Some True else None\<rparr>"]
    evaluate_strict_rule [of "NOTGadget ''n1'' ''a'' ''out''\<lparr>inputs := [0], outputs := [1]\<rparr>"
      1 "[]" "\<lambda>p. \<lparr>name = [], signal = Some True\<rparr>" 0 True]
    evaluate_strict_rule [of "ANDGadget ''and1'' ''a'' ''b'' ''out''\<lparr>inputs := [0, 1], outputs := [2]\<rparr>"
      2 "[]" "\<lambda>p. \<lparr>name = [], signal = Some (p = 0)\<rparr>" 0 True 1 False]
    evaluate_strict_rule [of "ORGadget ''or1'' ''a'' ''b'' ''out''\<lparr>inputs := [0, 1], outputs := [2]\<rparr>"
      2 "[]" "\<lambda>p. \<lparr>name = [], signal = Some (p = 1)\<rparr>" 0 False 1 True]
    evaluate_strict_rule [of "NANDGadget ''nand1'' ''a'' ''b'' ''out''\<lparr>inputs := [0, 1], outputs := [2]\<rparr>"
      2 "[]" "\<lambda>p. \<lparr>name = [], signal = Some True\<rparr>" 0 True 1 True]
  by (simp add: ANDGadget_def NOTGadget_def ORGadget_def NANDGadget_def)

section \<open>The scheduler depends on the set order only through the sets it walks\<close>

lemma kahn_cong:
  "(\<And>k ms. map_of graph k = Some ms \<Longrightarrow> it ms = it' ms) \<Longrightarrow>
   kahn it graph gmap in_degree queue order = kahn it' graph gmap in_degree queue order"
proof (induction it graph gmap in_degree queue order rule: kahn.induct)
  case (1 it graph gmap in_degree order)
  then show ?case by simp
next
  case (2 it graph gmap in_degree gid queue order)
  have n: "neighbours it graph gid = neighbours it' graph gid"
    using "2.prems" by (auto simp: neighbours_def split: option.splits)
  show ?case
    using "2.IH" "2.prems" n by (auto split: option.splits sum.splits)
qed

lemma run_cong:
  assumes "build_graph (gadgets net) = Inr (graph, in_degree)"
    and "\<And>k ms. map_of graph k = Some ms \<Longrightarrow> it ms = it' ms"
  shows "run it max_iterations trace net = run it' max_iterations trace net"
proof -
  have "kahn_order it net = kahn_order it' net"
    using assms by (simp add: kahn_order_def kahn_cong [of graph it it'])
  then show ?thesis by (simp add: run_def topological_sort_def)
qed

lemma gadgets_add_pleat [simp]: "gadgets (add_pleat nm sig net) = gadgets net"
  by (simp add: add_pleat_def)

lemma gadgets_set_inputs [simp]: "gadgets (set_inputs xs net) = gadgets net"
  by (induction xs net rule: set_inputs.induct) (auto split: option.splits)

lemma set_order_single: "set_order it \<Longrightarrow> it [x] = [x]"
  by (metis set_order_def mset_single_iff_right mset.simps)

lemma set_order_Nil: "set_order it \<Longrightarrow> it [] = []"
  by (metis set_order_def mset_zero_iff mset.simps(1))

lemma half_adder_built: "\<not> isl build_half_adder_network"
  by code_simp

lemma half_adder_graph:
  "build_graph (gadgets (projr build_half_adder_network)) =
     Inr ([(''and1'', [''not1'']), (''or1'', [''and2'']), (''not1'', [''and2''])],
          [(''and1'', 0), (''or1'', 0), (''not1'', 1), (''and2'', 2), (''and3_carry'', 0)])"
  by code_simp

lemma half_adder_rows:
  "\<forall>a b. fst (run (\<lambda>ms. ms) 5 False (set_inputs [(''a'', Some a), (''b'', Some b)] (projr build_half_adder_network)))
   = Inr [(''a'', Some a), (''b'', Some b), (''and_temp'', Some (a \<and> b)), (''or_temp'', Some (a \<or> b)),
          (''not_temp'', Some (\<not> (a \<and> b))), (''sum'', Some (a \<noteq> b)), (''carry'', Some (a \<and> b))]"
  by code_simp

section \<open>The half-adder\<close>

text \<open>
  Claim C2.  For all booleans \<^verbatim>\<open>a\<close> and \<^verbatim>\<open>b\<close>: \<^verbatim>\<open>build_half_adder_network\<close> succeeds,
  and after \<^verbatim>\<open>set_inputs({"a": a, "b": b})\<close> a \<^verbatim>\<open>run\<close> with the default iteration bound
  returns a snapshot in which \<^verbatim>\<open>sum\<close> is \<^verbatim>\<open>a\<close> xor \<^verbatim>\<open>b\<close> and \<^verbatim>\<open>carry\<close> is \<^verbatim>\<open>a\<close> and
  \<^verbatim>\<open>b\<close>, in whatever order sets yield their members.
\<close>

theorem half_adder_truth_table:
  assumes "set_order it"
  shows "\<exists>net snap.
           build_half_adder_network = Inr net
         \<and> fst (run it default_max_iterations False
                  (set_inputs [(''a'', Some a), (''b'', Some b)] net)) = Inr snap
         \<and> map_of snap ''sum'' = Some (Some (a \<noteq> b))
         \<and> map_of snap ''carry'' = Some (Some (a \<and> b))"
proof -
  let ?net = "projr build_half_adder_network"
  let ?inp = "set_inputs [(''a'', Some a), (''b'', Some b)] ?net"
  have built: "build_half_adder_network = Inr ?net"
    using half_adder_built by (cases build_half_adder_network) simp_all
  have g: "build_graph (gadgets ?inp) =
     Inr ([(''and1'', [''not1'']), (''or1'', [''and2'']), (''not1'', [''and2''])],
          [(''and1'', 0), (''or1'', 0), (''not1'', 1), (''and2'', 2), (''and3_carry'', 0)])"
    by (simp only: gadgets_set_inputs half_adder_graph)
  have "run it default_max_iterations False ?inp = run (\<lambda>ms. ms) default_max_iterations False ?inp"
    by (rule run_cong [OF g]) (auto simp: set_order_single [OF assms] split: if_splits)
  then have "fst (run it default_max_iterations False ?inp) =
     Inr [(''a'', Some a), (''b'', Some b), (''and_temp'', Some (a \<and> b)), (''or_temp'', Some (a \<or> b)),
          (''not_temp'', Some (\<not> (a \<and> b))), (''sum'', Some (a \<noteq> b)), (''carry'', Some (a \<and> b))]"
    using half_adder_rows by (simp only: default_max_iterations_def)
  then show ?thesis using built by (intro exI [of _ ?net]) force
qed

text \<open>The four rows of the literal table.\<close>

theorem half_adder_truth_table_witness:
  "\<exists>net. build_half_adder_network = Inr net
     \<and> (\<exists>snap. fst (run (\<lambda>ms. ms) 5 False
                      (set_inputs [(''a'', Some False), (''b'', Some False)] net)) = Inr snap
            \<and> map_of snap ''sum'' = Some (Some False) \<and> map_of snap ''carry'' = Some (Some False))
     \<and> (\<exists>snap. fst (run (\<lambda>ms. ms) 5 False
                      (set_inputs [(''a'', Some False), (''b'', Some True)] net)) = Inr snap
            \<and> map_of snap ''sum'' = Some (Some True) \<and> map_of snap ''carry'' = Some (Some False))
     \<and> (\<exists>snap. fst (run (\<lambda>ms. ms) 5 False
                      (set_inputs [(''a'', Some True), (''b'', Some False)] net)) = Inr snap
            \<and> map_of snap ''sum'' = Some (Some True) \<and> map_of snap ''carry'' = Some (Some False))
     \<and> (\<exists>snap. fst (run (\<lambda>ms. ms) 5 False
                      (set_inputs [(''a'', Some True), (''b'', Some True)] net)) = Inr snap
            \<and> map_of snap ''sum'' = Some (Some False) \<and> map_of snap ''carry'' = Some (Some True))"
proof -
  have so: "set_order (\<lambda>ms. ms)"
    by (simp add: set_order_def)
  obtain net where net: "build_half_adder_network = Inr net"
    using half_adder_truth_table [OF so, of False False] by blast
  have row: "\<exists>snap. fst (run (\<lambda>ms. ms) 5 False
                      (set_inputs [(''a'', Some a), (''b'', Some b)] net)) = Inr snap
            \<and> map_of snap ''sum'' = Some (Some (a \<noteq> b))
            \<and> map_of snap ''carry'' = Some (Some (a \<and> b))" for a b
  proof -
    obtain net' snap where
      "build_half_adder_network = Inr net'"
      "fst (run (\<lambda>ms. ms) default_max_iterations False
                      (set_inputs [(''a'', Some a), (''b'', Some b)] net')) = Inr snap"
      "map_of snap ''sum'' = Some (Some (a \<noteq> b))"
      "map_of snap ''carry'' = Some (Some (a \<and> b))"
      using half_adder_truth_table [OF so, of a b] by blast
    moreover from this(1) net have "net' = net"
      by (metis sum.inject(2))
    ultimately show ?thesis
      unfolding default_max_iterations_def by blast
  qed
  have r1: "False \<noteq> False \<longleftrightarrow> False" "False \<noteq> True \<longleftrightarrow> True" "True \<noteq> False \<longleftrightarrow> True"
    "True \<noteq> True \<longleftrightarrow> False" "False \<and> False \<longleftrightarrow> False" "False \<and> True \<longleftrightarrow> False"
    "True \<and> False \<longleftrightarrow> False" "True \<and> True \<longleftrightarrow> True"
    by simp_all
  from row [of False False] row [of False True] row [of True False] row [of True True] net
  show ?thesis
    unfolding r1 by blast
qed

section \<open>Cycle detection\<close>





section \<open>Attaching a gadget\<close>

lemma connect_inputs_loop_error:
  "connect_inputs_loop gid d nms ins = Inl e \<Longrightarrow>
   \<exists>nm \<in> set nms. map_of d nm = None \<and> e = ValueError_pleat_no_encontrado nm gid"
  by (induction nms arbitrary: ins) (auto split: option.splits)

lemma connect_inputs_loop_ok:
  "connect_inputs_loop gid d nms ins = Inr ins' \<Longrightarrow> \<forall>nm \<in> set nms. map_of d nm \<noteq> None"
  by (induction nms arbitrary: ins) (auto split: option.splits)

lemma connect_outputs_loop_gadgets:
  "gadgets (fst (connect_outputs_loop nms net outs)) = gadgets net"
  by (induction nms net outs rule: connect_outputs_loop.induct) (auto split: option.splits)

lemma connect_outputs_loop_fresh:
  "fresh net \<le> fresh (fst (connect_outputs_loop nms net outs))"
proof (induction nms net outs rule: connect_outputs_loop.induct)
  case (1 net outs)
  then show ?case by simp
next
  case (2 nm nms net outs)
  then show ?case by (cases "map_of (pleats net) nm") (auto dest: Suc_leD)
qed

lemma connect_outputs_loop_store:
  "p < fresh net \<Longrightarrow> store (fst (connect_outputs_loop nms net outs)) p = store net p"
  by (induction nms net outs rule: connect_outputs_loop.induct) (auto split: option.splits)

lemma connect_outputs_loop_keeps:
  "map_of (pleats net) k = Some p \<Longrightarrow>
   map_of (pleats (fst (connect_outputs_loop nms net outs))) k = Some p"
proof (induction nms net outs rule: connect_outputs_loop.induct)
  case (1 net outs)
  then show ?case by simp
next
  case (2 nm nms net outs)
  show ?case
  proof (cases "map_of (pleats net) nm")
    case (Some q)
    with "2.IH"(2) [OF Some "2.prems"] show ?thesis by simp
  next
    case None
    with "2.prems" have "k \<noteq> nm" by auto
    with "2.prems" have "map_of (AList.update nm (fresh net) (pleats net)) k = Some p"
      by (simp add: update_conv')
    with "2.IH"(1) [OF None] None show ?thesis by simp
  qed
qed

lemma connect_outputs_loop_creates:
  "nm \<in> set nms \<Longrightarrow> map_of (pleats net) nm = None \<Longrightarrow>
   \<exists>p. map_of (pleats (fst (connect_outputs_loop nms net outs))) nm = Some p
      \<and> store (fst (connect_outputs_loop nms net outs)) p = \<lparr>name = nm, signal = None\<rparr>"
proof (induction nms net outs rule: connect_outputs_loop.induct)
  case (1 net outs)
  then show ?case by simp
next
  case (2 nm' nms net outs)
  show ?case
  proof (cases "map_of (pleats net) nm'")
    case (Some p)
    with "2.prems" have "nm \<in> set nms" by auto
    with "2.IH"(2) [OF Some] "2.prems" Some show ?thesis by simp
  next
    case None
    let ?net1 = "net\<lparr>store := (store net)(fresh net := \<lparr>name = nm', signal = None\<rparr>),
                 fresh := Suc (fresh net),
                 pleats := AList.update nm' (fresh net) (pleats net)\<rparr>"
    show ?thesis
    proof (cases "nm = nm'")
      case True
      have "map_of (pleats ?net1) nm = Some (fresh net)"
        using True by (simp add: update_conv')
      then have "map_of (pleats (fst (connect_outputs_loop nms ?net1 (outs @ [fresh net])))) nm
                   = Some (fresh net)"
        by (rule connect_outputs_loop_keeps)
      moreover have "store (fst (connect_outputs_loop nms ?net1 (outs @ [fresh net]))) (fresh net)
                   = store ?net1 (fresh net)"
        by (rule connect_outputs_loop_store) simp
      ultimately show ?thesis using None True by simp
    next
      case False
      with "2.prems" have "nm \<in> set nms" by auto
      moreover have "map_of (pleats ?net1) nm = None"
        using False "2.prems" by (simp add: update_conv')
      ultimately show ?thesis
        using "2.IH"(1) [OF None] None by simp
    qed
  qed
qed

text \<open>What the four constructors set.\<close>

lemma NOTGadget_sel [simp]:
  "variant (NOTGadget gid i out) = NOT_gate" "gadget_id (NOTGadget gid i out) = gid"
  "input_names (NOTGadget gid i out) = [i]" "output_names (NOTGadget gid i out) = [out]"
  "inputs (NOTGadget gid i out) = []" "outputs (NOTGadget gid i out) = []"
  by (simp_all add: NOTGadget_def)

lemma ANDGadget_sel [simp]:
  "variant (ANDGadget gid i1 i2 out) = AND_gate" "gadget_id (ANDGadget gid i1 i2 out) = gid"
  "input_names (ANDGadget gid i1 i2 out) = [i1, i2]" "output_names (ANDGadget gid i1 i2 out) = [out]"
  "inputs (ANDGadget gid i1 i2 out) = []" "outputs (ANDGadget gid i1 i2 out) = []"
  by (simp_all add: ANDGadget_def)

lemma ORGadget_sel [simp]:
  "variant (ORGadget gid i1 i2 out) = OR_gate" "gadget_id (ORGadget gid i1 i2 out) = gid"
  "input_names (ORGadget gid i1 i2 out) = [i1, i2]" "output_names (ORGadget gid i1 i2 out) = [out]"
  "inputs (ORGadget gid i1 i2 out) = []" "outputs (ORGadget gid i1 i2 out) = []"
  by (simp_all add: ORGadget_def)

lemma NANDGadget_sel [simp]:
  "variant (NANDGadget gid i1 i2 out) = NAND_gate" "gadget_id (NANDGadget gid i1 i2 out) = gid"
  "input_names (NANDGadget gid i1 i2 out) = [i1, i2]" "output_names (NANDGadget gid i1 i2 out) = [out]"
  "inputs (NANDGadget gid i1 i2 out) = []" "outputs (NANDGadget gid i1 i2 out) = []"
  by (simp_all add: NANDGadget_def)

lemma pleats_one_wire:
  "map_of (pleats (add_pleat ''a'' None Network_init)) ''a'' = Some 0"
  "map_of (pleats (add_pleat ''a'' None Network_init)) ''zz'' = None"
  "map_of (pleats (add_pleat ''a'' None Network_init)) ''out'' = None"
  "gadgets Network_init = []"
  by (simp_all add: add_pleat_def Network_init_def)

text \<open>
  Claim C4.  \<^verbatim>\<open>add_gadget\<close> raises exactly when some input name is missing from the
  registry, and then it raises the error that names the pleat and leaves the network as
  it was.  When it does not raise, every output name that was missing is registered with a
  pleat of that name and no signal, and the gadget (with its id, class and names) is
  appended to the gadget list.
\<close>

theorem add_gadget_all_or_nothing:
  "(fst (add_gadget g net) \<noteq> None \<longleftrightarrow> (\<exists>nm \<in> set (input_names g). map_of (pleats net) nm = None))
   \<and> (fst (add_gadget g net) \<noteq> None \<longrightarrow>
        snd (add_gadget g net) = net
      \<and> (\<exists>nm \<in> set (input_names g). map_of (pleats net) nm = None
            \<and> fst (add_gadget g net) = Some (ValueError_pleat_no_encontrado nm (gadget_id g))))
   \<and> (fst (add_gadget g net) = None \<longrightarrow>
        (\<forall>nm \<in> set (output_names g). map_of (pleats net) nm = None \<longrightarrow>
           (\<exists>p. map_of (pleats (snd (add_gadget g net))) nm = Some p
               \<and> store (snd (add_gadget g net)) p = \<lparr>name = nm, signal = None\<rparr>))
      \<and> (\<exists>g'. gadgets (snd (add_gadget g net)) = gadgets net @ [g']
               \<and> gadget_id g' = gadget_id g \<and> variant g' = variant g
               \<and> input_names g' = input_names g \<and> output_names g' = output_names g))"
proof (cases "connect_inputs_loop (gadget_id g) (pleats net) (input_names g) (inputs g)")
  case (Inl e)
  from connect_inputs_loop_error [OF Inl] Inl show ?thesis
    by (auto simp: add_gadget_def connect_inputs_def)
next
  case (Inr ins)
  let ?g1 = "g\<lparr>inputs := ins\<rparr>"
  obtain net' outs where col: "connect_outputs_loop (output_names g) net (outputs g) = (net', outs)"
    by (cases "connect_outputs_loop (output_names g) net (outputs g)")
  have res: "add_gadget g net = (None, net'\<lparr>gadgets := gadgets net' @ [?g1\<lparr>outputs := outs\<rparr>]\<rparr>)"
    using Inr col by (simp add: add_gadget_def connect_inputs_def connect_outputs_def)
  have net': "net' = fst (connect_outputs_loop (output_names g) net (outputs g))"
    using col by simp
  have a: "\<forall>nm \<in> set (input_names g). map_of (pleats net) nm \<noteq> None"
    using connect_inputs_loop_ok [OF Inr] .
  have b: "\<forall>nm \<in> set (output_names g). map_of (pleats net) nm = None \<longrightarrow>
           (\<exists>p. map_of (pleats net') nm = Some p \<and> store net' p = \<lparr>name = nm, signal = None\<rparr>)"
    unfolding net' using connect_outputs_loop_creates by blast
  have c: "gadgets net' = gadgets net"
    unfolding net' by (rule connect_outputs_loop_gadgets)
  show ?thesis
    using a b c by (simp add: res)
qed

text \<open>A network with the pleat \<^verbatim>\<open>a\<close> only: one gadget that fails, one that attaches.\<close>

theorem add_gadget_all_or_nothing_witness:
  "fst (add_gadget (NOTGadget ''n1'' ''zz'' ''out'') (add_pleat ''a'' None Network_init))
     = Some (ValueError_pleat_no_encontrado ''zz'' ''n1'')
   \<and> snd (add_gadget (NOTGadget ''n1'' ''zz'' ''out'') (add_pleat ''a'' None Network_init))
     = add_pleat ''a'' None Network_init
   \<and> fst (add_gadget (NOTGadget ''n1'' ''a'' ''out'') (add_pleat ''a'' None Network_init)) = None
   \<and> (\<exists>p. map_of (pleats (snd (add_gadget (NOTGadget ''n1'' ''a'' ''out'')
                                 (add_pleat ''a'' None Network_init)))) ''out'' = Some p
         \<and> store (snd (add_gadget (NOTGadget ''n1'' ''a'' ''out'')
                          (add_pleat ''a'' None Network_init))) p
             = \<lparr>name = ''out'', signal = None\<rparr>)
   \<and> (\<exists>g'. gadgets (snd (add_gadget (NOTGadget ''n1'' ''a'' ''out'')
                            (add_pleat ''a'' None Network_init))) = [g']
          \<and> gadget_id g' = ''n1'')"
  using
    add_gadget_all_or_nothing [of "NOTGadget ''n1'' ''zz'' ''out''" "add_pleat ''a'' None Network_init"]
    add_gadget_all_or_nothing [of "NOTGadget ''n1'' ''a'' ''out''" "add_pleat ''a'' None Network_init"]
  by (auto simp add: pleats_one_wire)

end
